theory Spec2Isabelle
  imports Main
begin

section \<open>Python values, exceptions and the environment of a request\<close>

text \<open>
  The views exchange JSON with the payment gateway and answer with dictionaries, so the
  values they handle are Python values. A dictionary is an association list whose keys are
  distinct, searched with \<open>map_of\<close>. A \<open>Decimal\<close> with two places is the number of its
  hundredths; a timestamp is a clock reading; dates and UUIDs are kept in their text form,
  so that \<open>str\<close> is the identity on them.
\<close>

datatype pyval =
    PNone
  | PBool bool
  | PInt int
  | PStr string
  | PDecimal int
  | PTime nat
  | PList "pyval list"
  | PDict "(string \<times> pyval) list"

datatype exn =
    AttributeError
  | TypeError
  | KeyError
  | DoesNotExist
  | Http404
  | ValidationError
  | RequestException
  | DatabaseError
  | BrokerError

text \<open>\<open>d.get(k, default)\<close>: only a dictionary has the method.\<close>

fun py_get :: "pyval \<Rightarrow> string \<Rightarrow> pyval \<Rightarrow> exn + pyval" where
  "py_get (PDict kvs) k d = Inr (case map_of kvs k of None \<Rightarrow> d | Some v \<Rightarrow> v)"
| "py_get _ k d = Inl AttributeError"

text \<open>\<open>d[k]\<close> with a string key: \<open>KeyError\<close> on a dictionary without the key,
  \<open>TypeError\<close> on every other value.\<close>

fun py_subscript :: "pyval \<Rightarrow> string \<Rightarrow> exn + pyval" where
  "py_subscript (PDict kvs) k = (case map_of kvs k of None \<Rightarrow> Inl KeyError | Some v \<Rightarrow> Inr v)"
| "py_subscript _ k = Inl TypeError"

text \<open>\<open>str\<close> of a natural number and of a two-place \<open>Decimal\<close>.\<close>

fun str_nat :: "nat \<Rightarrow> string" where
  "str_nat n =
     (if n < 10 then [char_of (48 + n)]
      else str_nat (n div 10) @ [char_of (48 + n mod 10)])"

declare str_nat.simps [simp del]

definition str_decimal :: "int \<Rightarrow> string" where
  "str_decimal c =
     (if c < 0 then ''-'' else '''') @ str_nat (nat \<bar>c\<bar> div 100) @ ''.'' @
     [char_of (48 + nat \<bar>c\<bar> mod 100 div 10), char_of (48 + nat \<bar>c\<bar> mod 10)]"

text \<open>The first position of a list whose element satisfies a test: the row that
  \<open>QuerySet.first()\<close> or a lookup by key returns, together with where it is stored.\<close>

fun first_index :: "('a \<Rightarrow> bool) \<Rightarrow> 'a list \<Rightarrow> nat option" where
  "first_index P [] = None"
| "first_index P (x # xs) = (if P x then Some 0 else map_option Suc (first_index P xs))"

text \<open>
  An HTTP exchange with the gateway either raises a \<open>requests.RequestException\<close>
  (connection error, timeout, a body that \<open>response.json()\<close> cannot decode) or gives a
  status code and a decoded JSON body.
\<close>

datatype http_result = RequestFailed | HttpResponse nat pyval

datatype response = Response pyval nat

datatype log_level = INFO | ERROR

datatype log_arg = AExn exn | AVal pyval | AStr string | ANat nat

type_synonym log_entry = "log_level \<times> string \<times> log_arg list"

section \<open>The models of \<open>listings/models.py\<close>\<close>

record user =
  user_id :: nat
  username :: string
  email :: string
  first_name :: string
  last_name :: string

record listing =
  listing_pk :: nat
  title :: string
  description :: string
  location :: string
  price_per_night :: int
  available :: bool
  listing_created_at :: nat

record booking =
  booking_pk :: nat
  booking_id :: string
  booking_listing :: nat
  booking_user :: nat
  check_in :: string
  check_out :: string
  guests :: int
  total_price :: int
  status :: string
  booking_created_at :: nat

record payment =
  payment_pk :: nat
  payment_id :: string
  payment_booking :: nat
  transaction_id :: "string option"
  amount :: int
  currency :: string
  payment_status :: string
  payment_method :: pyval
  chapa_reference :: "string option"
  checkout_url :: pyval
  created_at :: nat
  updated_at :: nat

text \<open>
  Attribute access on a model instance: the declared columns (and the key) are there, any
  other name raises \<open>AttributeError\<close>. \<open>Listing\<close> declares \<open>title\<close> and no \<open>name\<close>;
  \<open>Payment\<close> declares \<open>created_at\<close> and \<open>updated_at\<close> and no \<open>verified_at\<close>.
\<close>

definition listing_getattr :: "listing \<Rightarrow> string \<Rightarrow> exn + pyval" where
  "listing_getattr l a =
     (if a = ''id'' \<or> a = ''pk'' then Inr (PInt (int (listing_pk l)))
      else if a = ''title'' then Inr (PStr (title l))
      else if a = ''description'' then Inr (PStr (description l))
      else if a = ''location'' then Inr (PStr (location l))
      else if a = ''price_per_night'' then Inr (PDecimal (price_per_night l))
      else if a = ''available'' then Inr (PBool (available l))
      else if a = ''created_at'' then Inr (PTime (listing_created_at l))
      else Inl AttributeError)"

definition payment_getattr :: "payment \<Rightarrow> string \<Rightarrow> exn + pyval" where
  "payment_getattr p a =
     (if a = ''id'' \<or> a = ''pk'' then Inr (PInt (int (payment_pk p)))
      else if a = ''payment_id'' then Inr (PStr (payment_id p))
      else if a = ''booking_id'' then Inr (PInt (int (payment_booking p)))
      else if a = ''transaction_id'' then
        Inr (case transaction_id p of None \<Rightarrow> PNone | Some t \<Rightarrow> PStr t)
      else if a = ''amount'' then Inr (PDecimal (amount p))
      else if a = ''currency'' then Inr (PStr (currency p))
      else if a = ''payment_status'' then Inr (PStr (payment_status p))
      else if a = ''payment_method'' then Inr (payment_method p)
      else if a = ''chapa_reference'' then
        Inr (case chapa_reference p of None \<Rightarrow> PNone | Some t \<Rightarrow> PStr t)
      else if a = ''checkout_url'' then Inr (checkout_url p)
      else if a = ''created_at'' then Inr (PTime (created_at p))
      else if a = ''updated_at'' then Inr (PTime (updated_at p))
      else Inl AttributeError)"

section \<open>The state: database tables, task queue and log\<close>

record job =
  task :: string
  kwargs :: "(string \<times> pyval) list"

text \<open>Tables are lists of rows in insertion order, which is the order of the keys.\<close>

record state =
  users :: "user list"
  listings :: "listing list"
  bookings :: "booking list"
  payments :: "payment list"
  queue :: "job list"
  logged :: "log_entry list"

text \<open>
  What a request takes from outside the program: the clock, the UUIDs it draws (numbered
  in the order of the draws), the gateway's answers, whether a write to a table and a
  publication to the broker go through, and the configured secret key.
\<close>

record env =
  now :: nat
  uuid4 :: "nat \<Rightarrow> string"
  http_post :: "string \<Rightarrow> pyval \<Rightarrow> pyval \<Rightarrow> http_result"
  http_get :: "string \<Rightarrow> pyval \<Rightarrow> http_result"
  payment_write_ok :: bool
  booking_write_ok :: bool
  broker_ok :: bool
  CHAPA_SECRET_KEY :: string

record request =
  req_user :: user
  base_uri :: string
  GET :: "(string \<times> string) list"
  data :: "(string \<times> string) list"

definition CHAPA_BASE_URL :: string where
  "CHAPA_BASE_URL = ''https://api.chapa.co/v1''"

definition log_msg :: "state \<Rightarrow> log_level \<Rightarrow> string \<Rightarrow> log_arg list \<Rightarrow> state" where
  "log_msg s lvl msg args = s\<lparr>logged := logged s @ [(lvl, msg, args)]\<rparr>"

definition next_pk :: "nat list \<Rightarrow> nat" where
  "next_pk pks = Suc (foldr max pks 0)"

section \<open>\<open>BookingViewSet.initiate_payment\<close>\<close>

text \<open>\<open>get_queryset\<close> keeps the requester's bookings; \<open>get_object\<close> looks the key up
  among them and raises \<open>Http404\<close> otherwise.\<close>

definition get_queryset :: "state \<Rightarrow> request \<Rightarrow> booking list" where
  "get_queryset s request =
     filter (\<lambda>b. booking_user b = user_id (req_user request)) (bookings s)"

definition get_object :: "state \<Rightarrow> request \<Rightarrow> nat \<Rightarrow> exn + booking" where
  "get_object s request pk =
     (case find (\<lambda>b. booking_pk b = pk) (get_queryset s request) of
        None \<Rightarrow> Inl Http404
      | Some b \<Rightarrow> Inr b)"

definition has_completed_payment :: "state \<Rightarrow> nat \<Rightarrow> bool" where
  "has_completed_payment s bpk =
     list_ex (\<lambda>p. payment_booking p = bpk \<and> payment_status p = ''completed'') (payments s)"

definition payment_data :: "request \<Rightarrow> booking \<Rightarrow> string \<Rightarrow> pyval" where
  "payment_data request booking tx_ref = PDict
     [(''amount'', PStr (str_decimal (total_price booking))),
      (''currency'', PStr ''ETB''),
      (''email'', PStr (email (req_user request))),
      (''first_name'', PStr (if first_name (req_user request) \<noteq> '''' then first_name (req_user request)
                             else username (req_user request))),
      (''last_name'', PStr (if last_name (req_user request) \<noteq> '''' then last_name (req_user request)
                            else '''')),
      (''tx_ref'', PStr tx_ref),
      (''callback_url'', PStr (base_uri request @ ''/api/payments/verify/'')),
      (''return_url'', PStr (base_uri request @ ''/bookings/'')),
      (''customization'', PDict
         [(''title'', PStr ''Travel Booking Payment''),
          (''description'', PStr (''Payment for booking '' @ booking_id booking))])]"

definition chapa_initialize :: "env \<Rightarrow> request \<Rightarrow> booking \<Rightarrow> string \<Rightarrow> http_result" where
  "chapa_initialize env request booking tx_ref =
     http_post env (CHAPA_BASE_URL @ ''/transaction/initialize'')
       (payment_data request booking tx_ref)
       (PDict [(''Authorization'', PStr (''Bearer '' @ CHAPA_SECRET_KEY env)),
               (''Content-Type'', PStr ''application/json'')])"

text \<open>\<open>Payment.objects.create\<close>: a new row with the next key, a drawn \<open>payment_id\<close>, no
  payment method, both timestamps at the clock; it raises when the write fails.\<close>

definition create_payment ::
  "env \<Rightarrow> state \<Rightarrow> booking \<Rightarrow> string \<Rightarrow> pyval \<Rightarrow> exn + (state \<times> payment)" where
  "create_payment env s booking tx_ref url =
     (if payment_write_ok env then
        let payment = \<lparr>payment_pk = next_pk (map payment_pk (payments s)),
                       payment_id = uuid4 env 1,
                       payment_booking = booking_pk booking,
                       transaction_id = Some tx_ref,
                       amount = total_price booking,
                       currency = ''ETB'',
                       payment_status = ''pending'',
                       payment_method = PNone,
                       chapa_reference = Some tx_ref,
                       checkout_url = url,
                       created_at = now env,
                       updated_at = now env\<rparr>
        in Inr (s\<lparr>payments := payments s @ [payment]\<rparr>, payment)
      else Inl DatabaseError)"

text \<open>The body of the \<open>try\<close>: the state it leaves and the exception or the response.\<close>

definition initiate_try ::
  "env \<Rightarrow> state \<Rightarrow> request \<Rightarrow> booking \<Rightarrow> string \<Rightarrow> state \<times> (exn + response)" where
  "initiate_try env s request booking tx_ref =
     (case chapa_initialize env request booking tx_ref of
        RequestFailed \<Rightarrow> (s, Inl RequestException)
      | HttpResponse status_code response_data \<Rightarrow>
          (case (if status_code = 200
                 then (case py_get response_data ''status'' PNone of
                         Inl e \<Rightarrow> Inl e
                       | Inr st \<Rightarrow> Inr (st = PStr ''success''))
                 else Inr False) of
             Inl e \<Rightarrow> (s, Inl e)
           | Inr True \<Rightarrow>
               (case py_subscript response_data ''data'' of
                  Inl e \<Rightarrow> (s, Inl e)
                | Inr d \<Rightarrow>
                    (case py_subscript d ''checkout_url'' of
                       Inl e \<Rightarrow> (s, Inl e)
                     | Inr url \<Rightarrow>
                         (case create_payment env s booking tx_ref url of
                            Inl e \<Rightarrow> (s, Inl e)
                          | Inr (s', payment) \<Rightarrow>
                              (log_msg s' INFO ''Payment initiated for booking {}, tx_ref: {}''
                                 [AStr (booking_id booking), AStr tx_ref],
                               Inr (Response (PDict
                                 [(''message'', PStr ''Payment initiated successfully''),
                                  (''payment_id'', PStr (payment_id payment)),
                                  (''checkout_url'', url),
                                  (''transaction_reference'', PStr tx_ref)]) 200)))))
           | Inr False \<Rightarrow>
               (log_msg s ERROR ''Chapa initialization failed: {}'' [AVal response_data],
                Inr (Response (PDict
                  [(''error'', PStr ''Failed to initiate payment with Chapa''),
                   (''details'', response_data)]) 400))))"

text \<open>The view: an exception that leaves it (\<open>Http404\<close> from \<open>get_object\<close>) is \<open>Inl\<close>.\<close>

definition initiate_payment ::
  "env \<Rightarrow> state \<Rightarrow> request \<Rightarrow> nat \<Rightarrow> state \<times> (exn + response)" where
  "initiate_payment env s request pk =
     (case get_object s request pk of
        Inl e \<Rightarrow> (s, Inl e)
      | Inr booking \<Rightarrow>
          if has_completed_payment s (booking_pk booking) then
            (s, Inr (Response (PDict
               [(''error'', PStr ''This booking already has a completed payment.'')]) 400))
          else
            let tx_ref = ''tx-'' @ uuid4 env 0 in
            (case initiate_try env s request booking tx_ref of
               (s', Inr resp) \<Rightarrow> (s', Inr resp)
             | (s', Inl e) \<Rightarrow>
                 if e = RequestException then
                   (log_msg s' ERROR ''Chapa API error: {}'' [AExn e],
                    Inr (Response (PDict
                      [(''error'', PStr ''Payment service temporarily unavailable'')]) 503))
                 else
                   (log_msg s' ERROR ''Unexpected error in initiate_payment: {}'' [AExn e],
                    Inr (Response (PDict
                      [(''error'', PStr ''An unexpected error occurred'')]) 500))))"

section \<open>Handing a task to the queue\<close>

text \<open>
  \<open>task.delay(**kwargs)\<close>: the keyword arguments are checked against the task's
  signature when the call is made (a \<open>TypeError\<close> for a name the task does not take or a
  parameter left out), then the job is published, which raises when the broker cannot be
  reached.
\<close>

definition delay ::
  "env \<Rightarrow> state \<Rightarrow> string \<Rightarrow> string list \<Rightarrow> (string \<times> pyval) list \<Rightarrow> exn + state" where
  "delay env s name params kws =
     (if list_all (\<lambda>k. k \<in> set params) (map fst kws)
         \<and> list_all (\<lambda>p. p \<in> set (map fst kws)) params
      then (if broker_ok env
            then Inr (s\<lparr>queue := queue s @ [\<lparr>task = name, kwargs = kws\<rparr>]\<rparr>)
            else Inl BrokerError)
      else Inl TypeError)"

text \<open>The parameters of \<open>send_booking_confirmation_email\<close> in \<open>listings/tasks.py\<close>.\<close>

definition send_booking_confirmation_email_params :: "string list" where
  "send_booking_confirmation_email_params =
     [''booking_id'', ''user_email'', ''listing_name'', ''check_in_date'', ''check_out_date'']"

section \<open>\<open>BookingViewSet.perform_create\<close> and \<open>create\<close>\<close>

text \<open>
  \<open>BookingSerializer\<close> is not among the sources: the data it validated (\<open>None\<close> when
  \<open>is_valid\<close> raises) and the representation it gives of a booking are parameters.
\<close>

record booking_form =
  form_listing :: nat
  form_check_in :: string
  form_check_out :: string
  form_guests :: int
  form_total_price :: int

text \<open>The keyword arguments are evaluated in the order written, before the call.\<close>

definition queue_booking_email :: "env \<Rightarrow> state \<Rightarrow> request \<Rightarrow> booking \<Rightarrow> exn + state" where
  "queue_booking_email env s request booking =
     (case find (\<lambda>l. listing_pk l = booking_listing booking) (listings s) of
        None \<Rightarrow> Inl DoesNotExist
      | Some l \<Rightarrow>
          (case listing_getattr l ''name'' of
             Inl e \<Rightarrow> Inl e
           | Inr listing_name \<Rightarrow>
               delay env s ''send_booking_confirmation_email''
                 send_booking_confirmation_email_params
                 [(''booking_id'', PInt (int (booking_pk booking))),
                  (''user_email'', PStr (email (req_user request))),
                  (''listing_name'', listing_name),
                  (''check_in_date'', PStr (check_in booking)),
                  (''check_out_date'', PStr (check_out booking)),
                  (''guests'', PInt (guests booking))]))"

definition perform_create ::
  "env \<Rightarrow> state \<Rightarrow> request \<Rightarrow> booking_form \<Rightarrow> exn + (state \<times> booking)" where
  "perform_create env s request form =
     (if booking_write_ok env then
        let booking = \<lparr>booking_pk = next_pk (map booking_pk (bookings s)),
                       booking_id = uuid4 env 0,
                       booking_listing = form_listing form,
                       booking_user = user_id (req_user request),
                       check_in = form_check_in form,
                       check_out = form_check_out form,
                       guests = form_guests form,
                       total_price = form_total_price form,
                       status = ''pending'',
                       booking_created_at = now env\<rparr>;
            s1 = log_msg (s\<lparr>bookings := bookings s @ [booking]\<rparr>) INFO
                   ''Booking {} created by user {}''
                   [AStr (booking_id booking), ANat (user_id (req_user request))]
        in Inr (case queue_booking_email env s1 request booking of
                  Inr s2 \<Rightarrow>
                    log_msg s2 INFO ''Booking confirmation email queued for booking {}''
                      [ANat (booking_pk booking)]
                | Inl e \<Rightarrow>
                    log_msg s1 ERROR ''Failed to queue booking email for {}: {}''
                      [ANat (booking_pk booking), AExn e],
                booking)
      else Inl DatabaseError)"

definition create ::
  "(booking \<Rightarrow> pyval) \<Rightarrow> env \<Rightarrow> state \<Rightarrow> request \<Rightarrow> booking_form option
     \<Rightarrow> state \<times> (exn + response)" where
  "create serializer_data env s request validated =
     (case validated of
        None \<Rightarrow> (s, Inl ValidationError)
      | Some form \<Rightarrow>
          (case perform_create env s request form of
             Inl e \<Rightarrow> (s, Inl e)
           | Inr (s', booking) \<Rightarrow>
               (s', Inr (Response (PDict
                  [(''message'', PStr
                      ''Booking created successfully. Confirmation email will be sent shortly.''),
                   (''booking'', serializer_data booking)]) 201))))"

section \<open>\<open>verify_payment\<close>\<close>

text \<open>\<open>request.GET.get('tx_ref') or request.data.get('tx_ref')\<close>: the query parameter
  when it is there and not empty, otherwise the one of the body.\<close>

definition request_tx_ref :: "request \<Rightarrow> string option" where
  "request_tx_ref request =
     (case map_of (GET request) ''tx_ref'' of
        None \<Rightarrow> map_of (data request) ''tx_ref''
      | Some t \<Rightarrow> if t \<noteq> '''' then Some t else map_of (data request) ''tx_ref'')"

definition chapa_verify :: "env \<Rightarrow> string \<Rightarrow> http_result" where
  "chapa_verify env tx_ref =
     http_get env (CHAPA_BASE_URL @ ''/transaction/verify/'' @ tx_ref)
       (PDict [(''Authorization'', PStr (''Bearer '' @ CHAPA_SECRET_KEY env))])"

text \<open>
  \<open>save()\<close> writes the row back where it was read and sets \<open>updated_at\<close> (declared
  \<open>auto_now\<close>) to the clock; it raises when the write fails. \<open>Booking\<close> has no such
  column.
\<close>

definition save_payment :: "env \<Rightarrow> state \<Rightarrow> nat \<Rightarrow> payment \<Rightarrow> exn + state" where
  "save_payment env s i payment =
     (if payment_write_ok env
      then Inr (s\<lparr>payments := (payments s)[i := payment\<lparr>updated_at := now env\<rparr>]\<rparr>)
      else Inl DatabaseError)"

definition save_booking :: "env \<Rightarrow> state \<Rightarrow> nat \<Rightarrow> booking \<Rightarrow> exn + state" where
  "save_booking env s j booking =
     (if booking_write_ok env
      then Inr (s\<lparr>bookings := (bookings s)[j := booking]\<rparr>)
      else Inl DatabaseError)"

text \<open>
  \<open>send_payment_confirmation_email\<close> is imported from \<open>listings/tasks.py\<close>, which does
  not define it: the parameters of the task are a parameter of the model.
\<close>

definition queue_payment_email ::
  "string list \<Rightarrow> env \<Rightarrow> state \<Rightarrow> booking \<Rightarrow> payment \<Rightarrow> exn + state" where
  "queue_payment_email params env s booking payment =
     (case find (\<lambda>u. user_id u = booking_user booking) (users s) of
        None \<Rightarrow> Inl DoesNotExist
      | Some u \<Rightarrow>
          (case find (\<lambda>l. listing_pk l = booking_listing booking) (listings s) of
             None \<Rightarrow> Inl DoesNotExist
           | Some l \<Rightarrow>
               (case listing_getattr l ''name'' of
                  Inl e \<Rightarrow> Inl e
                | Inr listing_name \<Rightarrow>
                    delay env s ''send_payment_confirmation_email'' params
                      [(''user_email'', PStr (email u)),
                       (''booking_id'', PStr (booking_id booking)),
                       (''amount'', PStr (str_decimal (amount payment))),
                       (''check_in'', PStr (check_in booking)),
                       (''check_out'', PStr (check_out booking)),
                       (''listing_name'', listing_name)])))"

text \<open>
  The branch for a gateway status \<open>success\<close>. The assignment to \<open>payment.verified_at\<close>
  sets an attribute of the instance only: \<open>Payment\<close> has no such column, so \<open>save()\<close>
  writes nothing for it. \<open>i\<close> is the position of the payment's row.
\<close>

definition verify_success ::
  "string list \<Rightarrow> env \<Rightarrow> state \<Rightarrow> nat \<Rightarrow> payment \<Rightarrow> pyval \<Rightarrow> state \<times> (exn + response)" where
  "verify_success params env s i payment payment_info =
     (case py_get payment_info ''payment_method'' (PStr '''') of
        Inl e \<Rightarrow> (s, Inl e)
      | Inr method \<Rightarrow>
          let payment' = payment\<lparr>payment_status := ''completed'', payment_method := method\<rparr> in
          (case save_payment env s i payment' of
             Inl e \<Rightarrow> (s, Inl e)
           | Inr s1 \<Rightarrow>
               (case first_index (\<lambda>b. booking_pk b = payment_booking payment') (bookings s1) of
                  None \<Rightarrow> (s1, Inl DoesNotExist)
                | Some j \<Rightarrow>
                    let booking = (bookings s1 ! j)\<lparr>status := ''confirmed''\<rparr> in
                    (case save_booking env s1 j booking of
                       Inl e \<Rightarrow> (s1, Inl e)
                     | Inr s2 \<Rightarrow>
                         (case queue_payment_email params env s2 booking payment' of
                            Inr s3 \<Rightarrow>
                              log_msg s3 INFO
                                ''Payment confirmation email queued for booking {}''
                                [AStr (booking_id booking)]
                          | Inl e \<Rightarrow>
                              log_msg s2 ERROR ''Failed to queue payment email: {}'' [AExn e],
                          Inr (Response (PDict
                            [(''message'', PStr ''Payment verified and confirmed''),
                             (''booking_id'', PStr (booking_id booking)),
                             (''payment_status'', PStr ''completed'')]) 200))))))"

text \<open>The branch for any other gateway status.\<close>

definition verify_failed ::
  "env \<Rightarrow> state \<Rightarrow> nat \<Rightarrow> payment \<Rightarrow> state \<times> (exn + response)" where
  "verify_failed env s i payment =
     (case save_payment env s i (payment\<lparr>payment_status := ''failed''\<rparr>) of
        Inl e \<Rightarrow> (s, Inl e)
      | Inr s1 \<Rightarrow>
          (s1, Inr (Response (PDict
             [(''message'', PStr ''Payment failed''),
              (''payment_status'', PStr ''failed'')]) 400)))"

text \<open>\<open>response.status_code != 200 or response_data.get('status') != 'success'\<close>: the
  second operand is evaluated only when the first is false.\<close>

definition not_verified :: "nat \<Rightarrow> pyval \<Rightarrow> exn + bool" where
  "not_verified status_code response_data =
     (if status_code \<noteq> 200 then Inr True
      else (case py_get response_data ''status'' PNone of
              Inl e \<Rightarrow> Inl e
            | Inr st \<Rightarrow> Inr (st \<noteq> PStr ''success'')))"

definition verify_try ::
  "string list \<Rightarrow> env \<Rightarrow> state \<Rightarrow> string \<Rightarrow> state \<times> (exn + response)" where
  "verify_try params env s tx_ref =
     (case chapa_verify env tx_ref of
        RequestFailed \<Rightarrow> (s, Inl RequestException)
      | HttpResponse status_code response_data \<Rightarrow>
          (case not_verified status_code response_data of
             Inl e \<Rightarrow> (s, Inl e)
           | Inr True \<Rightarrow>
               (s, Inr (Response (PDict
                  [(''error'', PStr ''Payment verification failed''),
                   (''details'', response_data)]) 400))
           | Inr False \<Rightarrow>
               (case py_subscript response_data ''data'' of
                  Inl e \<Rightarrow> (s, Inl e)
                | Inr payment_info \<Rightarrow>
                    (case first_index (\<lambda>p. transaction_id p = Some tx_ref) (payments s) of
                       None \<Rightarrow>
                         (s, Inr (Response (PDict
                            [(''error'', PStr ''Payment record not found'')]) 404))
                     | Some i \<Rightarrow>
                         (case py_subscript payment_info ''status'' of
                            Inl e \<Rightarrow> (s, Inl e)
                          | Inr st \<Rightarrow>
                              if st = PStr ''success''
                              then verify_success params env s i (payments s ! i) payment_info
                              else verify_failed env s i (payments s ! i))))))"

definition verify_payment :: "string list \<Rightarrow> env \<Rightarrow> state \<Rightarrow> request \<Rightarrow> state \<times> response" where
  "verify_payment params env s request =
     (case request_tx_ref request of
        None \<Rightarrow> (s, Response (PDict [(''error'', PStr ''tx_ref is required'')]) 400)
      | Some tx_ref \<Rightarrow>
          if tx_ref = '''' then
            (s, Response (PDict [(''error'', PStr ''tx_ref is required'')]) 400)
          else
            (case verify_try params env s tx_ref of
               (s', Inr resp) \<Rightarrow> (s', resp)
             | (s', Inl e) \<Rightarrow>
                 if e = RequestException then
                   (log_msg s' ERROR ''Chapa verification request failed: {}'' [AExn e],
                    Response (PDict [(''error'', PStr ''Verification service unavailable'')]) 503)
                 else
                   (log_msg s' ERROR ''Unexpected error in verify_payment: {}'' [AExn e],
                    Response (PDict [(''error'', PStr ''Internal server error'')]) 500)))"

section \<open>\<open>payment_status\<close>\<close>

text \<open>
  The view is named \<open>payment_status\<close> in the source, as the column of \<open>Payment\<close> is.
  \<open>get_object_or_404\<close> raises \<open>Http404\<close> inside the \<open>try\<close>; the dictionary of the
  answer is built entry by entry, and \<open>payment.verified_at\<close> is read on an instance
  loaded from the table.
\<close>

definition payment_status_try :: "state \<Rightarrow> request \<Rightarrow> string \<Rightarrow> exn + response" where
  "payment_status_try s request pid =
     (case find (\<lambda>p. payment_id p = pid) (payments s) of
        None \<Rightarrow> Inl Http404
      | Some payment \<Rightarrow>
          (case find (\<lambda>b. booking_pk b = payment_booking payment) (bookings s) of
             None \<Rightarrow> Inl DoesNotExist
           | Some booking \<Rightarrow>
               if booking_user booking \<noteq> user_id (req_user request) then
                 Inr (Response (PDict [(''error'', PStr ''Unauthorized'')]) 403)
               else
                 (case payment_getattr payment ''verified_at'' of
                    Inl e \<Rightarrow> Inl e
                  | Inr verified_at \<Rightarrow>
                      Inr (Response (PDict
                        [(''payment_id'', PStr (payment_id payment)),
                         (''booking_id'', PStr (booking_id booking)),
                         (''amount'', PStr (str_decimal (amount payment))),
                         (''currency'', PStr (currency payment)),
                         (''status'', PStr (payment_status payment)),
                         (''transaction_id'',
                            (case transaction_id payment of None \<Rightarrow> PNone | Some t \<Rightarrow> PStr t)),
                         (''checkout_url'', checkout_url payment),
                         (''created_at'', PTime (created_at payment)),
                         (''updated_at'', PTime (updated_at payment)),
                         (''verified_at'', verified_at)]) 200))))"

definition payment_status_view :: "state \<Rightarrow> request \<Rightarrow> string \<Rightarrow> state \<times> response" where
  "payment_status_view s request pid =
     (case payment_status_try s request pid of
        Inr resp \<Rightarrow> (s, resp)
      | Inl e \<Rightarrow>
          (log_msg s ERROR ''Error in payment_status: {}'' [AExn e],
           Response (PDict [(''error'', PStr ''Failed to retrieve payment status'')]) 400))"

section \<open>Sequences of payment requests\<close>

datatype op = InitiatePayment env request nat | VerifyPayment env request

fun step :: "string list \<Rightarrow> state \<Rightarrow> op \<Rightarrow> state" where
  "step params s (InitiatePayment env request pk) = fst (initiate_payment env s request pk)"
| "step params s (VerifyPayment env request) = fst (verify_payment params env s request)"

fun run :: "string list \<Rightarrow> state \<Rightarrow> op list \<Rightarrow> state" where
  "run params s [] = s"
| "run params s (x # xs) = run params (step params s x) xs"

fun is_verify :: "op \<Rightarrow> bool" where
  "is_verify (VerifyPayment env request) = True"
| "is_verify (InitiatePayment env request pk) = False"

definition completed_count :: "state \<Rightarrow> nat \<Rightarrow> nat" where
  "completed_count s bpk =
     length (filter (\<lambda>p. payment_booking p = bpk \<and> payment_status p = ''completed'')
               (payments s))"

section \<open>Example data\<close>

text \<open>A small database: two users, one listing, one pending booking of the first user
  for 100.00, and no payment yet.\<close>

definition alice :: user where
  "alice = \<lparr>user_id = 1, username = ''alice'', email = ''alice@example.com'',
            first_name = ''Alice'', last_name = ''Abebe''\<rparr>"

definition bob :: user where
  "bob = \<lparr>user_id = 2, username = ''bob'', email = ''bob@example.com'',
          first_name = ''Bob'', last_name = ''Bekele''\<rparr>"

definition lodge :: listing where
  "lodge = \<lparr>listing_pk = 1, title = ''Lake Lodge'', description = ''By the lake'',
            location = ''Bahir Dar'', price_per_night = 5000, available = True,
            listing_created_at = 1\<rparr>"

definition stay :: booking where
  "stay = \<lparr>booking_pk = 1, booking_id = ''b-1'', booking_listing = 1, booking_user = 1,
           check_in = ''2025-01-10'', check_out = ''2025-01-12'', guests = 2,
           total_price = 10000, status = ''pending'', booking_created_at = 2\<rparr>"

definition db0 :: state where
  "db0 = \<lparr>users = [alice, bob], listings = [lodge], bookings = [stay], payments = [],
          queue = [], logged = []\<rparr>"

text \<open>A payment of that booking with reference \<open>tx-u1\<close>, as \<open>initiate_payment\<close> stores
  it, with a given status; and the database holding it.\<close>

definition pay1 :: "string \<Rightarrow> payment" where
  "pay1 st = \<lparr>payment_pk = 1, payment_id = ''u1-id'', payment_booking = 1,
              transaction_id = Some ''tx-u1'', amount = 10000, currency = ''ETB'',
              payment_status = st, payment_method = PNone,
              chapa_reference = Some ''tx-u1'',
              checkout_url = PStr ''https://checkout.chapa.co/c1'',
              created_at = 10, updated_at = 10\<rparr>"

definition db1 :: "string \<Rightarrow> state" where
  "db1 st = db0\<lparr>payments := [pay1 st]\<rparr>"

text \<open>A request of a user; a non-empty \<open>tx\<close> is its query parameter \<open>tx_ref\<close>.\<close>

definition req_of :: "user \<Rightarrow> string \<Rightarrow> request" where
  "req_of u tx = \<lparr>req_user = u, base_uri = ''https://travel.example'',
                  GET = (if tx = '''' then [] else [(''tx_ref'', tx)]), data = []\<rparr>"

text \<open>The gateway's answers: to a successful initialisation, and to a verification
  with a given transaction status.\<close>

definition init_reply :: pyval where
  "init_reply = PDict
     [(''status'', PStr ''success''),
      (''data'', PDict [(''checkout_url'', PStr ''https://checkout.chapa.co/c1'')])]"

definition verify_reply :: "string \<Rightarrow> pyval" where
  "verify_reply st = PDict
     [(''status'', PStr ''success''),
      (''data'', PDict [(''status'', PStr st), (''payment_method'', PStr ''telebirr'')])]"

text \<open>An environment: the clock, the UUID drawn first, the gateway's answer to every
  call, and whether the writes to the payment and booking tables succeed. The broker is
  reachable.\<close>

definition env_of :: "nat \<Rightarrow> string \<Rightarrow> http_result \<Rightarrow> bool \<Rightarrow> bool \<Rightarrow> env" where
  "env_of t u reply pw bw =
     \<lparr>now = t, uuid4 = (\<lambda>k. if k = 0 then u else u @ ''-id''),
      http_post = (\<lambda>_ _ _. reply), http_get = (\<lambda>_ _. reply),
      payment_write_ok = pw, booking_write_ok = bw, broker_ok = True,
      CHAPA_SECRET_KEY = ''secret''\<rparr>"

text \<open>Parameters for the payment-confirmation task: the names the view passes.\<close>

definition payment_email_params :: "string list" where
  "payment_email_params =
     [''user_email'', ''booking_id'', ''amount'', ''check_in'', ''check_out'', ''listing_name'']"

definition form1 :: booking_form where
  "form1 = \<lparr>form_listing = 1, form_check_in = ''2025-02-01'', form_check_out = ''2025-02-03'',
            form_guests = 2, form_total_price = 10000\<rparr>"

section \<open>Unfolding the model\<close>

lemmas fixture_defs = alice_def bob_def lodge_def stay_def db0_def db1_def pay1_def req_of_def
  init_reply_def verify_reply_def env_of_def payment_email_params_def form1_def

lemmas view_defs = initiate_payment_def initiate_try_def get_object_def get_queryset_def
  has_completed_payment_def chapa_initialize_def create_payment_def log_msg_def next_pk_def
  verify_payment_def verify_try_def verify_success_def verify_failed_def not_verified_def
  chapa_verify_def request_tx_ref_def save_payment_def save_booking_def
  queue_payment_email_def listing_getattr_def completed_count_def Let_def

lemmas create_defs = create_def perform_create_def queue_booking_email_def delay_def
  send_booking_confirmation_email_params_def listing_getattr_def log_msg_def next_pk_def Let_def

lemmas status_defs = payment_status_view_def payment_status_try_def payment_getattr_def log_msg_def

section \<open>Rows, positions and frames\<close>

lemma first_index_SomeD:
  "first_index P xs = Some i \<Longrightarrow> i < length xs \<and> P (xs ! i)"
proof (induction xs arbitrary: i)
  case Nil
  then show ?case by simp
next
  case (Cons x xs)
  then show ?case by (cases i) (auto split: if_splits)
qed

lemma first_index_update_same:
  "first_index P xs = Some i \<Longrightarrow> P v \<Longrightarrow> first_index P (xs[i := v]) = Some i"
proof (induction xs arbitrary: i)
  case Nil
  then show ?case by simp
next
  case (Cons x xs)
  then show ?case by (cases i) (auto split: if_splits)
qed

lemma filter_update_length:
  "length (filter P (xs[i := v])) \<le> Suc (length (filter P xs))"
proof (induction xs arbitrary: i)
  case Nil
  then show ?case by simp
next
  case (Cons x xs)
  show ?case
  proof (cases i)
    case 0
    then show ?thesis by simp
  next
    case (Suc k)
    with Cons.IH [of k] show ?thesis by simp
  qed
qed

lemma unchanged_is_update: "ys = xs \<Longrightarrow> \<exists>i v. ys = xs[i := v]"
  by (metis list_update_id)

lemma listing_has_no_name: "listing_getattr l ''name'' = Inl AttributeError"
  by (simp add: listing_getattr_def)

lemma payment_has_no_verified_at: "payment_getattr p ''verified_at'' = Inl AttributeError"
  by (simp add: payment_getattr_def)

lemma delay_frame:
  "delay env s name params kws = Inr s' \<Longrightarrow>
     payments s' = payments s \<and> bookings s' = bookings s \<and> users s' = users s \<and> listings s' = listings s"
  by (auto simp: delay_def split: if_splits)

lemma queue_payment_email_frame:
  "queue_payment_email params env s b p = Inr s' \<Longrightarrow>
     payments s' = payments s \<and> bookings s' = bookings s \<and> users s' = users s \<and> listings s' = listings s"
  by (auto simp: queue_payment_email_def split: option.splits sum.splits dest: delay_frame)

lemma queue_payment_email_raises: "queue_payment_email params env s b p \<noteq> Inr s'"
  by (simp add: queue_payment_email_def listing_has_no_name split: option.splits)

lemma log_msg_frame [simp]:
  "payments (log_msg s lvl m args) = payments s"
  "bookings (log_msg s lvl m args) = bookings s"
  "users (log_msg s lvl m args) = users s"
  "listings (log_msg s lvl m args) = listings s"
  "queue (log_msg s lvl m args) = queue s"
  by (simp_all add: log_msg_def)

section \<open>What one call of \<open>verify_payment\<close> does\<close>

text \<open>
  With a reference in the request, the tables after the view are those after the body of
  its \<open>try\<close>, and the answer is the body's answer or the one of the handler that
  catches its exception.
\<close>

lemma verify_payment_of_try:
  assumes "request_tx_ref request = Some tx" and "tx \<noteq> ''''"
  shows "payments (fst (verify_payment params env s request)) = payments (fst (verify_try params env s tx))"
    and "bookings (fst (verify_payment params env s request)) = bookings (fst (verify_try params env s tx))"
    and "users (fst (verify_payment params env s request)) = users (fst (verify_try params env s tx))"
    and "listings (fst (verify_payment params env s request)) = listings (fst (verify_try params env s tx))"
    and "queue (fst (verify_payment params env s request)) = queue (fst (verify_try params env s tx))"
    and "snd (verify_try params env s tx) = Inr r \<Longrightarrow> snd (verify_payment params env s request) = r"
    and "snd (verify_try params env s tx) = Inl e \<Longrightarrow> e \<noteq> RequestException \<Longrightarrow>
           snd (verify_payment params env s request) =
             Response (PDict [(''error'', PStr ''Internal server error'')]) 500"
  using assms by (auto simp: verify_payment_def split: prod.splits sum.splits)

text \<open>
  When the gateway answers 200 with status \<open>success\<close> and a transaction status, and a
  payment carries the reference, the body reaches one of the two branches.
\<close>

lemma verify_try_reached:
  assumes "chapa_verify env tx = HttpResponse 200 (PDict kvs)"
    and "map_of kvs ''status'' = Some (PStr ''success'')"
    and "map_of kvs ''data'' = Some (PDict info)"
    and "map_of info ''status'' = Some st"
    and "first_index (\<lambda>p. transaction_id p = Some tx) (payments s) = Some i"
  shows "verify_try params env s tx =
           (if st = PStr ''success''
            then verify_success params env s i (payments s ! i) (PDict info)
            else verify_failed env s i (payments s ! i))"
  using assms by (simp add: verify_try_def not_verified_def)

lemma verify_failed_effect:
  "verify_failed env s i p =
     (if payment_write_ok env
      then (s\<lparr>payments := (payments s)[i := p\<lparr>payment_status := ''failed'', updated_at := now env\<rparr>]\<rparr>,
            Inr (Response (PDict [(''message'', PStr ''Payment failed''),
                                  (''payment_status'', PStr ''failed'')]) 400))
      else (s, Inl DatabaseError))"
  by (simp add: verify_failed_def save_payment_def)

lemma verify_success_payments:
  "payments (fst (verify_success params env s i p (PDict info))) =
     (if payment_write_ok env
      then (payments s)[i := p\<lparr>payment_status := ''completed'',
                                payment_method := (case map_of info ''payment_method'' of
                                                     None \<Rightarrow> PStr '''' | Some v \<Rightarrow> v),
                                updated_at := now env\<rparr>]
      else payments s)"
  by (auto simp: verify_success_def save_payment_def save_booking_def Let_def
           split: option.splits sum.splits dest: queue_payment_email_frame)

lemma verify_success_bookings:
  assumes "first_index (\<lambda>b. booking_pk b = payment_booking p) (bookings s) = Some j"
  shows "bookings (fst (verify_success params env s i p (PDict info))) =
     (if payment_write_ok env \<and> booking_write_ok env
      then (bookings s)[j := (bookings s ! j)\<lparr>status := ''confirmed''\<rparr>]
      else bookings s)"
  using assms
  by (auto simp: verify_success_def save_payment_def save_booking_def Let_def
           split: option.splits sum.splits dest: queue_payment_email_frame)

lemma verify_success_response:
  assumes "first_index (\<lambda>b. booking_pk b = payment_booking p) (bookings s) = Some j"
  shows "snd (verify_success params env s i p (PDict info)) =
     (if payment_write_ok env \<and> booking_write_ok env
      then Inr (Response (PDict
                  [(''message'', PStr ''Payment verified and confirmed''),
                   (''booking_id'', PStr (booking_id (bookings s ! j))),
                   (''payment_status'', PStr ''completed'')]) 200)
      else Inl DatabaseError)"
  using assms
  by (auto simp: verify_success_def save_payment_def save_booking_def Let_def
           split: option.splits sum.splits)

text \<open>
  Whatever happens, a call rewrites at most one row of the payment table.
\<close>

lemma verify_success_payments_shape:
  "\<exists>k v. payments (fst (verify_success params env s i p info)) = (payments s)[k := v]"
proof (cases "payments (fst (verify_success params env s i p info)) = payments s")
  case True
  then show ?thesis by (rule unchanged_is_update)
next
  case False
  then have "payments (fst (verify_success params env s i p info)) =
      (payments s)[i := p\<lparr>payment_status := ''completed'',
         payment_method := (case py_get info ''payment_method'' (PStr '''') of Inr m \<Rightarrow> m | Inl e \<Rightarrow> PNone),
         updated_at := now env\<rparr>]"
    by (auto simp: verify_success_def save_payment_def save_booking_def Let_def
             split: option.splits sum.splits if_splits dest: queue_payment_email_frame)
  then show ?thesis by blast
qed

lemma verify_failed_payments_shape:
  "\<exists>k v. payments (fst (verify_failed env s i p)) = (payments s)[k := v]"
  by (auto simp: verify_failed_effect intro: unchanged_is_update)

lemma verify_try_payments:
  "\<exists>k v. payments (fst (verify_try params env s tx)) = (payments s)[k := v]"
  unfolding verify_try_def
  by (auto simp: verify_success_payments_shape verify_failed_payments_shape
           split: http_result.splits sum.splits bool.splits option.splits
           intro: unchanged_is_update)

lemma verify_payment_completed_count:
  "completed_count (fst (verify_payment params env s request)) bpk \<le> Suc (completed_count s bpk)"
proof -
  have "\<exists>k v. payments (fst (verify_payment params env s request)) = (payments s)[k := v]"
  proof (cases "request_tx_ref request")
    case None
    then show ?thesis by (simp add: verify_payment_def unchanged_is_update)
  next
    case (Some tx)
    show ?thesis
    proof (cases "tx = ''''")
      case True
      with Some show ?thesis by (simp add: verify_payment_def unchanged_is_update)
    next
      case False
      with Some show ?thesis
        by (simp add: verify_payment_of_try(1) verify_try_payments)
    qed
  qed
  then obtain k v where "payments (fst (verify_payment params env s request)) = (payments s)[k := v]"
    by blast
  then show ?thesis
    by (simp add: completed_count_def filter_update_length)
qed

text \<open>
  No call queues a job: the arguments of \<open>delay\<close> include \<open>booking.listing.name\<close>,
  and evaluating it raises.
\<close>

lemma verify_success_queue: "queue (fst (verify_success params env s i p info)) = queue s"
  by (auto simp: verify_success_def save_payment_def save_booking_def Let_def
                 queue_payment_email_raises
           split: option.splits sum.splits)

lemma verify_payment_never_enqueues:
  "queue (fst (verify_payment params env s request)) = queue s"
proof (cases "request_tx_ref request")
  case None
  then show ?thesis by (simp add: verify_payment_def)
next
  case (Some tx)
  show ?thesis
  proof (cases "tx = ''''")
    case True
    with Some show ?thesis by (simp add: verify_payment_def)
  next
    case False
    have "queue (fst (verify_try params env s tx)) = queue s"
      unfolding verify_try_def
      by (auto simp: verify_success_queue verify_failed_effect
               split: http_result.splits sum.splits bool.splits option.splits)
    with Some False show ?thesis
      by (simp add: verify_payment_of_try(5))
  qed
qed

section \<open>What one call of \<open>initiate_payment\<close> does\<close>

lemma initiate_try_payments:
  "payments (fst (initiate_try env s request booking tx)) = payments s
   \<or> (\<exists>p. payment_status p = ''pending''
          \<and> payments (fst (initiate_try env s request booking tx)) = payments s @ [p])"
  by (auto simp: initiate_try_def create_payment_def Let_def
           split: http_result.splits sum.splits bool.splits if_splits)

lemma initiate_payment_of_try:
  assumes "get_object s request pk = Inr booking"
    and "\<not> has_completed_payment s (booking_pk booking)"
  shows "payments (fst (initiate_payment env s request pk)) =
           payments (fst (initiate_try env s request booking (''tx-'' @ uuid4 env 0)))"
    and "bookings (fst (initiate_payment env s request pk)) =
           bookings (fst (initiate_try env s request booking (''tx-'' @ uuid4 env 0)))"
    and "snd (initiate_try env s request booking (''tx-'' @ uuid4 env 0)) = Inr r \<Longrightarrow>
           snd (initiate_payment env s request pk) = Inr r"
    and "snd (initiate_try env s request booking (''tx-'' @ uuid4 env 0)) = Inl RequestException \<Longrightarrow>
           snd (initiate_payment env s request pk) =
             Inr (Response (PDict
               [(''error'', PStr ''Payment service temporarily unavailable'')]) 503)"
  using assms by (auto simp: initiate_payment_def Let_def split: prod.splits sum.splits)

lemma initiate_payment_completed_count:
  "completed_count (fst (initiate_payment env s request pk)) bpk = completed_count s bpk"
proof (cases "get_object s request pk")
  case (Inl e)
  then show ?thesis by (simp add: initiate_payment_def)
next
  case (Inr booking)
  show ?thesis
  proof (cases "has_completed_payment s (booking_pk booking)")
    case True
    with Inr show ?thesis by (simp add: initiate_payment_def)
  next
    case False
    have "payments (fst (initiate_payment env s request pk)) =
            payments (fst (initiate_try env s request booking (''tx-'' @ uuid4 env 0)))"
      using Inr False by (rule initiate_payment_of_try)
    with initiate_try_payments [of env s request booking "''tx-'' @ uuid4 env 0"]
    show ?thesis by (auto simp: completed_count_def)
  qed
qed

lemma step_completed_count:
  "completed_count (step params s x) bpk \<le> completed_count s bpk + (if is_verify x then 1 else 0)"
proof (cases x)
  case (InitiatePayment env request pk)
  then show ?thesis by (simp add: initiate_payment_completed_count)
next
  case (VerifyPayment env request)
  then show ?thesis using verify_payment_completed_count [of params env s request bpk] by simp
qed

lemma run_completed_count:
  "completed_count (run params s ops) bpk \<le> completed_count s bpk + length (filter is_verify ops)"
proof (induction ops arbitrary: s)
  case Nil
  then show ?case by simp
next
  case (Cons x xs)
  have "completed_count (run params (step params s x) xs) bpk
          \<le> completed_count (step params s x) bpk + length (filter is_verify xs)"
    by (rule Cons.IH)
  also have "completed_count (step params s x) bpk
          \<le> completed_count s bpk + (if is_verify x then 1 else 0)"
    by (rule step_completed_count)
  finally show ?case by (simp split: if_splits)
qed

section \<open>C1: completed payments of a booking\<close>

text \<open>
  C1 says that a booking never has more than one completed payment. The guard of
  \<open>initiate_payment\<close> looks at completed payments only, so two payments can be pending
  together, and \<open>verify_payment\<close> completes whichever payment the gateway reports as
  paid: after two initiations and two verifications the booking has two completed payments.
\<close>

theorem two_completed_payments_counterexample:
  "completed_count
     (run payment_email_params db0
        [InitiatePayment (env_of 10 ''u1'' (HttpResponse 200 init_reply) True True) (req_of alice '''') 1,
         InitiatePayment (env_of 11 ''u2'' (HttpResponse 200 init_reply) True True) (req_of alice '''') 1,
         VerifyPayment (env_of 12 ''v1'' (HttpResponse 200 (verify_reply ''success'')) True True)
           (req_of alice ''tx-u1''),
         VerifyPayment (env_of 13 ''v2'' (HttpResponse 200 (verify_reply ''success'')) True True)
           (req_of alice ''tx-u2'')]) 1 = 2"
  by (simp add: view_defs fixture_defs)

text \<open>
  C1 as amended: while a booking has a completed payment, \<open>initiate_payment\<close> for it
  answers 400 and leaves the state as it is, whatever the gateway would say; and after any
  sequence of initiations and verifications the number of completed payments of a booking
  is at most what it was before plus the number of verifications in the sequence
  (an initiation never changes it, a verification raises it by one at most).
\<close>

theorem completed_payments_bound:
  "(get_object s request pk = Inr booking \<and> has_completed_payment s (booking_pk booking) \<longrightarrow>
      initiate_payment env s request pk =
        (s, Inr (Response (PDict
           [(''error'', PStr ''This booking already has a completed payment.'')]) 400)))
   \<and> completed_count (run params s ops) bpk
        \<le> completed_count s bpk + length (filter is_verify ops)"
  by (simp add: run_completed_count initiate_payment_def)

text \<open>
  The bound and the guard on a booking that has a completed payment.
\<close>

theorem completed_payments_bound_witness:
  "get_object (db1 ''completed'') (req_of alice '''') 1 = Inr stay
   \<and> has_completed_payment (db1 ''completed'') (booking_pk stay)
   \<and> initiate_payment (env_of 20 ''u2'' (HttpResponse 200 init_reply) True True)
        (db1 ''completed'') (req_of alice '''') 1 =
        (db1 ''completed'', Inr (Response (PDict
           [(''error'', PStr ''This booking already has a completed payment.'')]) 400))
   \<and> completed_count
        (run payment_email_params (db1 ''completed'')
           [InitiatePayment (env_of 20 ''u2'' (HttpResponse 200 init_reply) True True)
              (req_of alice '''') 1]) 1 \<le> 1"
proof -
  have h: "get_object (db1 ''completed'') (req_of alice '''') 1 = Inr stay"
    by (simp add: get_object_def get_queryset_def fixture_defs)
  have c: "has_completed_payment (db1 ''completed'') (booking_pk stay)"
    by (simp add: has_completed_payment_def fixture_defs)
  have n: "completed_count (db1 ''completed'') 1 = 1"
    by (simp add: completed_count_def fixture_defs)
  show ?thesis
    using h c n
      completed_payments_bound [of "db1 ''completed''" "req_of alice ''''" 1 stay
        "env_of 20 ''u2'' (HttpResponse 200 init_reply) True True" payment_email_params
        "[InitiatePayment (env_of 20 ''u2'' (HttpResponse 200 init_reply) True True)
              (req_of alice '''') 1]" 1]
    by simp
qed

section \<open>C2: a second verification\<close>

text \<open>
  C2 says that a second call with the same reference and the same gateway answer changes
  nothing. \<open>verify_payment\<close> has no branch for a payment that is completed already: it
  saves the payment again, and \<open>save()\<close> moves \<open>updated_at\<close> to the time of the
  second call, so the state after the second call is not the state after the first.
\<close>

theorem verify_payment_replay_counterexample:
  "payments (fst (verify_payment payment_email_params
          (env_of 30 ''v2'' (HttpResponse 200 (verify_reply ''success'')) True True)
          (fst (verify_payment payment_email_params
                  (env_of 20 ''v1'' (HttpResponse 200 (verify_reply ''success'')) True True)
                  (db1 ''pending'') (req_of alice ''tx-u1'')))
          (req_of alice ''tx-u1'')))
   \<noteq> payments (fst (verify_payment payment_email_params
            (env_of 20 ''v1'' (HttpResponse 200 (verify_reply ''success'')) True True)
            (db1 ''pending'') (req_of alice ''tx-u1'')))"
  by (simp add: view_defs fixture_defs)

text \<open>
  C2 as amended: when both calls get the same successful answer from the gateway and their
  writes succeed, the payment is completed after the first call, the second call gives the
  same answer as the first, leaves the booking table as the first call left it, and
  changes the payment table only in the \<open>updated_at\<close> of that payment, which
  becomes the time of the second call.
\<close>

theorem verify_payment_replay:
  assumes tx: "request_tx_ref request = Some tx" "tx \<noteq> ''''"
    and gw1: "chapa_verify env1 tx = HttpResponse 200 (PDict kvs)"
    and gw2: "chapa_verify env2 tx = HttpResponse 200 (PDict kvs)"
    and ok: "map_of kvs ''status'' = Some (PStr ''success'')"
      "map_of kvs ''data'' = Some (PDict info)"
      "map_of info ''status'' = Some (PStr ''success'')"
    and row: "first_index (\<lambda>p. transaction_id p = Some tx) (payments s) = Some i"
    and bk: "first_index (\<lambda>b. booking_pk b = payment_booking (payments s ! i)) (bookings s) = Some j"
    and w1: "payment_write_ok env1" "booking_write_ok env1"
    and w2: "payment_write_ok env2" "booking_write_ok env2"
  shows "payment_status (payments (fst (verify_payment params env1 s request)) ! i) = ''completed''
       \<and> snd (verify_payment params env2 (fst (verify_payment params env1 s request)) request) =
           snd (verify_payment params env1 s request)
       \<and> bookings (fst (verify_payment params env2 (fst (verify_payment params env1 s request)) request)) =
           bookings (fst (verify_payment params env1 s request))
       \<and> payments (fst (verify_payment params env2 (fst (verify_payment params env1 s request)) request)) =
           (payments (fst (verify_payment params env1 s request)))
             [i := (payments (fst (verify_payment params env1 s request)) ! i)\<lparr>updated_at := now env2\<rparr>]"
proof -
  define s1 where "s1 = fst (verify_payment params env1 s request)"
  define m where "m = (case map_of info ''payment_method'' of None \<Rightarrow> PStr '''' | Some v \<Rightarrow> v)"
  have i: "i < length (payments s)" and txi: "transaction_id (payments s ! i) = Some tx"
    using first_index_SomeD [OF row] by simp_all
  have j: "j < length (bookings s)"
    and pkj: "booking_pk (bookings s ! j) = payment_booking (payments s ! i)"
    using first_index_SomeD [OF bk] by simp_all
  have reached1: "verify_try params env1 s tx =
      verify_success params env1 s i (payments s ! i) (PDict info)"
    using verify_try_reached [OF gw1 ok row] by simp
  note frame1 = verify_payment_of_try [OF tx, of params env1 s]
  have p1: "payments s1 =
      (payments s)[i := (payments s ! i)\<lparr>payment_status := ''completed'', payment_method := m,
                                          updated_at := now env1\<rparr>]"
    using w1 by (simp add: s1_def m_def frame1 reached1 verify_success_payments)
  have b1: "bookings s1 = (bookings s)[j := (bookings s ! j)\<lparr>status := ''confirmed''\<rparr>]"
    using w1 by (simp add: s1_def frame1 reached1 verify_success_bookings [OF bk])
  have r1: "snd (verify_payment params env1 s request) =
      Response (PDict [(''message'', PStr ''Payment verified and confirmed''),
                       (''booking_id'', PStr (booking_id (bookings s ! j))),
                       (''payment_status'', PStr ''completed'')]) 200"
    using w1 by (simp add: frame1 reached1 verify_success_response [OF bk])
  have row1: "first_index (\<lambda>p. transaction_id p = Some tx) (payments s1) = Some i"
    unfolding p1 using row txi by (intro first_index_update_same) simp_all
  have bk1: "first_index (\<lambda>b. booking_pk b = payment_booking (payments s1 ! i)) (bookings s1) = Some j"
    unfolding b1 using bk pkj i by (intro first_index_update_same) (simp_all add: p1)
  have reached2: "verify_try params env2 s1 tx =
      verify_success params env2 s1 i (payments s1 ! i) (PDict info)"
    using verify_try_reached [OF gw2 ok row1] by simp
  note frame2 = verify_payment_of_try [OF tx, of params env2 s1]
  have p2: "payments (fst (verify_payment params env2 s1 request)) =
      (payments s1)[i := (payments s1 ! i)\<lparr>updated_at := now env2\<rparr>]"
    using w2 i by (simp add: frame2 reached2 verify_success_payments m_def [symmetric] p1)
  have b2: "bookings (fst (verify_payment params env2 s1 request)) = bookings s1"
    using w2 j by (simp add: frame2 reached2 verify_success_bookings [OF bk1] b1)
  have r2: "snd (verify_payment params env2 s1 request) =
      snd (verify_payment params env1 s request)"
    using w2 j by (simp add: frame2 reached2 verify_success_response [OF bk1] r1 b1)
  have c1: "payment_status (payments s1 ! i) = ''completed''"
    using i by (simp add: p1)
  from c1 r2 b2 p2 show ?thesis
    unfolding s1_def by blast
qed

text \<open>
  Two calls at times 20 and 30 for the payment of the example.
\<close>

theorem verify_payment_replay_witness:
  "payment_status (payments (fst (verify_payment payment_email_params
       (env_of 20 ''v1'' (HttpResponse 200 (verify_reply ''success'')) True True)
       (db1 ''pending'') (req_of alice ''tx-u1''))) ! 0) = ''completed''
   \<and> snd (verify_payment payment_email_params
       (env_of 30 ''v2'' (HttpResponse 200 (verify_reply ''success'')) True True)
       (fst (verify_payment payment_email_params
          (env_of 20 ''v1'' (HttpResponse 200 (verify_reply ''success'')) True True)
          (db1 ''pending'') (req_of alice ''tx-u1'')))
       (req_of alice ''tx-u1'')) =
     snd (verify_payment payment_email_params
       (env_of 20 ''v1'' (HttpResponse 200 (verify_reply ''success'')) True True)
       (db1 ''pending'') (req_of alice ''tx-u1''))
   \<and> updated_at (payments (fst (verify_payment payment_email_params
       (env_of 30 ''v2'' (HttpResponse 200 (verify_reply ''success'')) True True)
       (fst (verify_payment payment_email_params
          (env_of 20 ''v1'' (HttpResponse 200 (verify_reply ''success'')) True True)
          (db1 ''pending'') (req_of alice ''tx-u1'')))
       (req_of alice ''tx-u1''))) ! 0) = 30"
proof -
  have len: "length (payments (fst (verify_payment payment_email_params
       (env_of 20 ''v1'' (HttpResponse 200 (verify_reply ''success'')) True True)
       (db1 ''pending'') (req_of alice ''tx-u1'')))) = 1"
    by (simp add: view_defs fixture_defs)
  show ?thesis
    using len
      verify_payment_replay [of "req_of alice ''tx-u1''" "''tx-u1''"
        "env_of 20 ''v1'' (HttpResponse 200 (verify_reply ''success'')) True True"
        "[(''status'', PStr ''success''),
          (''data'', PDict [(''status'', PStr ''success''), (''payment_method'', PStr ''telebirr'')])]"
        "env_of 30 ''v2'' (HttpResponse 200 (verify_reply ''success'')) True True"
        "[(''status'', PStr ''success''), (''payment_method'', PStr ''telebirr'')]"
        "db1 ''pending''" 0 0 payment_email_params]
    by (simp add: request_tx_ref_def chapa_verify_def fixture_defs)
qed

section \<open>C3: the status after a verification\<close>

text \<open>
  C3 says that a status set by \<open>verify_payment\<close> is final. A payment completed by one
  call is set to \<open>failed\<close> by a later call for which the gateway reports a failure.
\<close>

theorem payment_status_terminal_counterexample:
  "payment_status (payments (fst (verify_payment payment_email_params
       (env_of 20 ''v1'' (HttpResponse 200 (verify_reply ''success'')) True True)
       (db1 ''pending'') (req_of alice ''tx-u1''))) ! 0) = ''completed''
   \<and> payment_status (payments (fst (verify_payment payment_email_params
       (env_of 30 ''v2'' (HttpResponse 200 (verify_reply ''failed'')) True True)
       (fst (verify_payment payment_email_params
          (env_of 20 ''v1'' (HttpResponse 200 (verify_reply ''success'')) True True)
          (db1 ''pending'') (req_of alice ''tx-u1'')))
       (req_of alice ''tx-u1''))) ! 0) = ''failed''"
  by (simp add: view_defs fixture_defs)

text \<open>
  C3 as amended: a call that reaches the payment (the gateway answers 200 with status
  \<open>success\<close> and a transaction status, and the write succeeds) sets the status from
  the gateway's report alone, \<open>completed\<close> for \<open>success\<close> and \<open>failed\<close> for
  anything else, whatever the status was; so a status is kept by a later call exactly when
  the gateway reports the same outcome again.
\<close>

theorem verify_payment_status_follows_gateway:
  assumes tx: "request_tx_ref request = Some tx" "tx \<noteq> ''''"
    and gw: "chapa_verify env tx = HttpResponse 200 (PDict kvs)"
      "map_of kvs ''status'' = Some (PStr ''success'')"
      "map_of kvs ''data'' = Some (PDict info)"
      "map_of info ''status'' = Some st"
    and row: "first_index (\<lambda>p. transaction_id p = Some tx) (payments s) = Some i"
    and pw: "payment_write_ok env"
  shows "payment_status (payments (fst (verify_payment params env s request)) ! i) =
           (if st = PStr ''success'' then ''completed'' else ''failed'')"
proof -
  from row have i: "i < length (payments s)"
    by (simp add: first_index_SomeD)
  have "payments (fst (verify_payment params env s request)) =
          payments (fst (verify_try params env s tx))"
    using tx by (rule verify_payment_of_try)
  also have "verify_try params env s tx =
      (if st = PStr ''success''
       then verify_success params env s i (payments s ! i) (PDict info)
       else verify_failed env s i (payments s ! i))"
    using gw row by (rule verify_try_reached)
  finally show ?thesis
    using i pw by (simp add: verify_success_payments verify_failed_effect)
qed

text \<open>
  A payment that had failed is completed by a later successful report.
\<close>

theorem verify_payment_status_follows_gateway_witness:
  "payment_status (payments (db1 ''failed'') ! 0) = ''failed''
   \<and> payment_status (payments (fst (verify_payment payment_email_params
       (env_of 30 ''v2'' (HttpResponse 200 (verify_reply ''success'')) True True)
       (db1 ''failed'') (req_of alice ''tx-u1''))) ! 0) = ''completed''"
  using verify_payment_status_follows_gateway [of "req_of alice ''tx-u1''" "''tx-u1''"
        "env_of 30 ''v2'' (HttpResponse 200 (verify_reply ''success'')) True True"
        "[(''status'', PStr ''success''),
          (''data'', PDict [(''status'', PStr ''success''), (''payment_method'', PStr ''telebirr'')])]"
        "[(''status'', PStr ''success''), (''payment_method'', PStr ''telebirr'')]"
        "PStr ''success''" "db1 ''failed''" 0 payment_email_params]
  by (simp add: request_tx_ref_def chapa_verify_def fixture_defs)

section \<open>C4: the two writes of a successful verification\<close>

text \<open>
  C4 says that the payment and the booking change together or not at all, also when a
  write fails. The payment is saved first and the booking second, with no transaction
  around them: when the second write fails the view answers 500, the payment is completed
  and the booking is still pending.
\<close>

theorem verify_payment_atomic_counterexample:
  "payment_status (payments (fst (verify_payment payment_email_params
       (env_of 20 ''v1'' (HttpResponse 200 (verify_reply ''success'')) True False)
       (db1 ''pending'') (req_of alice ''tx-u1''))) ! 0) = ''completed''
   \<and> status (bookings (fst (verify_payment payment_email_params
       (env_of 20 ''v1'' (HttpResponse 200 (verify_reply ''success'')) True False)
       (db1 ''pending'') (req_of alice ''tx-u1''))) ! 0) = ''pending''
   \<and> snd (verify_payment payment_email_params
       (env_of 20 ''v1'' (HttpResponse 200 (verify_reply ''success'')) True False)
       (db1 ''pending'') (req_of alice ''tx-u1'')) =
     Response (PDict [(''error'', PStr ''Internal server error'')]) 500"
  by (simp add: view_defs fixture_defs)

text \<open>
  C4 as amended: for a pending payment that the gateway reports as paid, when both writes
  succeed the payment is completed, the booking confirmed and the answer is 200; when the
  write of the payment fails neither table changes and the answer is 500; when the write of
  the payment succeeds and the write of the booking fails, the payment is completed, the
  booking table is unchanged and the answer is 500.
\<close>

theorem verify_payment_success_writes:
  assumes tx: "request_tx_ref request = Some tx" "tx \<noteq> ''''"
    and gw: "chapa_verify env tx = HttpResponse 200 (PDict kvs)"
      "map_of kvs ''status'' = Some (PStr ''success'')"
      "map_of kvs ''data'' = Some (PDict info)"
      "map_of info ''status'' = Some (PStr ''success'')"
    and row: "first_index (\<lambda>p. transaction_id p = Some tx) (payments s) = Some i"
    and pending: "payment_status (payments s ! i) = ''pending''"
    and bk: "first_index (\<lambda>b. booking_pk b = payment_booking (payments s ! i)) (bookings s) = Some j"
  shows "(payment_write_ok env \<and> booking_write_ok env \<longrightarrow>
            payment_status (payments (fst (verify_payment params env s request)) ! i) = ''completed''
          \<and> status (bookings (fst (verify_payment params env s request)) ! j) = ''confirmed''
          \<and> snd (verify_payment params env s request) =
              Response (PDict [(''message'', PStr ''Payment verified and confirmed''),
                               (''booking_id'', PStr (booking_id (bookings s ! j))),
                               (''payment_status'', PStr ''completed'')]) 200)
       \<and> (\<not> payment_write_ok env \<longrightarrow>
            payments (fst (verify_payment params env s request)) = payments s
          \<and> bookings (fst (verify_payment params env s request)) = bookings s
          \<and> snd (verify_payment params env s request) =
              Response (PDict [(''error'', PStr ''Internal server error'')]) 500)
       \<and> (payment_write_ok env \<and> \<not> booking_write_ok env \<longrightarrow>
            payment_status (payments (fst (verify_payment params env s request)) ! i) = ''completed''
          \<and> bookings (fst (verify_payment params env s request)) = bookings s
          \<and> snd (verify_payment params env s request) =
              Response (PDict [(''error'', PStr ''Internal server error'')]) 500)"
proof -
  from row have i: "i < length (payments s)"
    by (simp add: first_index_SomeD)
  from bk have j: "j < length (bookings s)"
    by (simp add: first_index_SomeD)
  have reached: "verify_try params env s tx =
      verify_success params env s i (payments s ! i) (PDict info)"
    using verify_try_reached [OF gw row] by simp
  note frame = verify_payment_of_try [OF tx, of params env s]
  have both: "payment_write_ok env \<and> booking_write_ok env \<longrightarrow>
            payment_status (payments (fst (verify_payment params env s request)) ! i) = ''completed''
          \<and> status (bookings (fst (verify_payment params env s request)) ! j) = ''confirmed''
          \<and> snd (verify_payment params env s request) =
              Response (PDict [(''message'', PStr ''Payment verified and confirmed''),
                               (''booking_id'', PStr (booking_id (bookings s ! j))),
                               (''payment_status'', PStr ''completed'')]) 200"
    using i j
    by (simp add: frame reached verify_success_payments verify_success_bookings [OF bk]
          verify_success_response [OF bk])
  have none: "\<not> payment_write_ok env \<longrightarrow>
            payments (fst (verify_payment params env s request)) = payments s
          \<and> bookings (fst (verify_payment params env s request)) = bookings s
          \<and> snd (verify_payment params env s request) =
              Response (PDict [(''error'', PStr ''Internal server error'')]) 500"
    by (simp add: frame reached verify_success_payments verify_success_bookings [OF bk]
          verify_success_response [OF bk])
  have half: "payment_write_ok env \<and> \<not> booking_write_ok env \<longrightarrow>
            payment_status (payments (fst (verify_payment params env s request)) ! i) = ''completed''
          \<and> bookings (fst (verify_payment params env s request)) = bookings s
          \<and> snd (verify_payment params env s request) =
              Response (PDict [(''error'', PStr ''Internal server error'')]) 500"
    using i
    by (simp add: frame reached verify_success_payments verify_success_bookings [OF bk]
          verify_success_response [OF bk])
  from both none half show ?thesis by blast
qed

text \<open>
  Both writes succeed on the example.
\<close>

theorem verify_payment_success_writes_witness:
  "payment_status (payments (db1 ''pending'') ! 0) = ''pending''
   \<and> status (bookings (db1 ''pending'') ! 0) = ''pending''
   \<and> payment_status (payments (fst (verify_payment payment_email_params
       (env_of 20 ''v1'' (HttpResponse 200 (verify_reply ''success'')) True True)
       (db1 ''pending'') (req_of alice ''tx-u1''))) ! 0) = ''completed''
   \<and> status (bookings (fst (verify_payment payment_email_params
       (env_of 20 ''v1'' (HttpResponse 200 (verify_reply ''success'')) True True)
       (db1 ''pending'') (req_of alice ''tx-u1''))) ! 0) = ''confirmed''"
  using verify_payment_success_writes [of "req_of alice ''tx-u1''" "''tx-u1''"
        "env_of 20 ''v1'' (HttpResponse 200 (verify_reply ''success'')) True True"
        "[(''status'', PStr ''success''),
          (''data'', PDict [(''status'', PStr ''success''), (''payment_method'', PStr ''telebirr'')])]"
        "[(''status'', PStr ''success''), (''payment_method'', PStr ''telebirr'')]"
        "db1 ''pending''" 0 0 payment_email_params]
  by (simp add: request_tx_ref_def chapa_verify_def fixture_defs)

section \<open>C5: a failed call of the gateway in \<open>initiate_payment\<close>\<close>

text \<open>
  C5: for a booking of the requester without a completed payment, when the call to the
  gateway raises a request exception the answer is 503 with "Payment service temporarily
  unavailable"; when the gateway answers with another code than 200, or with a JSON object
  whose status is not \<open>success\<close>, the answer is 400 with the gateway's body as details;
  in both cases the payment table is unchanged.
\<close>

theorem initiate_payment_gateway_failure:
  assumes bk: "get_object s request pk = Inr booking"
    and unpaid: "\<not> has_completed_payment s (booking_pk booking)"
  shows "(chapa_initialize env request booking (''tx-'' @ uuid4 env 0) = RequestFailed \<longrightarrow>
            snd (initiate_payment env s request pk) =
              Inr (Response (PDict
                [(''error'', PStr ''Payment service temporarily unavailable'')]) 503)
          \<and> payments (fst (initiate_payment env s request pk)) = payments s)
       \<and> (chapa_initialize env request booking (''tx-'' @ uuid4 env 0) = HttpResponse code body
            \<and> (code \<noteq> 200 \<or> (\<exists>kvs. body = PDict kvs \<and> map_of kvs ''status'' \<noteq> Some (PStr ''success'')))
          \<longrightarrow>
            snd (initiate_payment env s request pk) =
              Inr (Response (PDict
                [(''error'', PStr ''Failed to initiate payment with Chapa''),
                 (''details'', body)]) 400)
          \<and> payments (fst (initiate_payment env s request pk)) = payments s)"
proof -
  note of_try = initiate_payment_of_try [OF bk unpaid, of env]
  have unavailable: "chapa_initialize env request booking (''tx-'' @ uuid4 env 0) = RequestFailed \<Longrightarrow>
      initiate_try env s request booking (''tx-'' @ uuid4 env 0) = (s, Inl RequestException)"
    by (simp add: initiate_try_def)
  have rejected: "chapa_initialize env request booking (''tx-'' @ uuid4 env 0) = HttpResponse code body
      \<Longrightarrow> code \<noteq> 200 \<or> (\<exists>kvs. body = PDict kvs \<and> map_of kvs ''status'' \<noteq> Some (PStr ''success''))
      \<Longrightarrow> initiate_try env s request booking (''tx-'' @ uuid4 env 0) =
            (log_msg s ERROR ''Chapa initialization failed: {}'' [AVal body],
             Inr (Response (PDict
               [(''error'', PStr ''Failed to initiate payment with Chapa''),
                (''details'', body)]) 400))"
    by (auto simp: initiate_try_def split: option.splits)
  show ?thesis
    using unavailable rejected by (auto simp: of_try)
qed

text \<open>
  Both failures on the example.
\<close>

theorem initiate_payment_gateway_failure_witness:
  "snd (initiate_payment (env_of 10 ''u1'' RequestFailed True True) db0 (req_of alice '''') 1) =
     Inr (Response (PDict
       [(''error'', PStr ''Payment service temporarily unavailable'')]) 503)
   \<and> payments (fst (initiate_payment (env_of 10 ''u1'' RequestFailed True True) db0
        (req_of alice '''') 1)) = []
   \<and> snd (initiate_payment
        (env_of 10 ''u1'' (HttpResponse 400 (PDict [(''status'', PStr ''failed'')])) True True)
        db0 (req_of alice '''') 1) =
     Inr (Response (PDict
       [(''error'', PStr ''Failed to initiate payment with Chapa''),
        (''details'', PDict [(''status'', PStr ''failed'')])]) 400)
   \<and> payments (fst (initiate_payment
        (env_of 10 ''u1'' (HttpResponse 400 (PDict [(''status'', PStr ''failed'')])) True True)
        db0 (req_of alice '''') 1)) = []"
proof -
  have h: "get_object db0 (req_of alice '''') 1 = Inr stay"
    by (simp add: get_object_def get_queryset_def fixture_defs)
  have u: "\<not> has_completed_payment db0 (booking_pk stay)"
    by (simp add: has_completed_payment_def fixture_defs)
  show ?thesis
    using initiate_payment_gateway_failure [OF h u, of "env_of 10 ''u1'' RequestFailed True True"]
      initiate_payment_gateway_failure [OF h u,
        of "env_of 10 ''u1'' (HttpResponse 400 (PDict [(''status'', PStr ''failed'')])) True True"
           400 "PDict [(''status'', PStr ''failed'')]"]
    by (simp add: chapa_initialize_def fixture_defs)
qed

section \<open>C6: a successful \<open>initiate_payment\<close>\<close>

text \<open>
  C6: when the gateway answers 200 with status \<open>success\<close> and a checkout URL, and the
  write succeeds, exactly one payment is appended: pending, for the booking's total price,
  in ETB, with the fresh reference and the gateway's checkout URL. The answer is 200 with
  the payment id, the checkout URL and the reference, and the booking table is unchanged.
\<close>

theorem initiate_payment_success:
  assumes bk: "get_object s request pk = Inr booking"
    and unpaid: "\<not> has_completed_payment s (booking_pk booking)"
    and gw: "chapa_initialize env request booking (''tx-'' @ uuid4 env 0) = HttpResponse 200 (PDict kvs)"
      "map_of kvs ''status'' = Some (PStr ''success'')"
      "map_of kvs ''data'' = Some (PDict d)"
      "map_of d ''checkout_url'' = Some url"
    and pw: "payment_write_ok env"
  shows "payments (fst (initiate_payment env s request pk)) =
           payments s @
             [\<lparr>payment_pk = next_pk (map payment_pk (payments s)),
               payment_id = uuid4 env 1,
               payment_booking = booking_pk booking,
               transaction_id = Some (''tx-'' @ uuid4 env 0),
               amount = total_price booking,
               currency = ''ETB'',
               payment_status = ''pending'',
               payment_method = PNone,
               chapa_reference = Some (''tx-'' @ uuid4 env 0),
               checkout_url = url,
               created_at = now env,
               updated_at = now env\<rparr>]
       \<and> bookings (fst (initiate_payment env s request pk)) = bookings s
       \<and> snd (initiate_payment env s request pk) =
           Inr (Response (PDict
             [(''message'', PStr ''Payment initiated successfully''),
              (''payment_id'', PStr (uuid4 env 1)),
              (''checkout_url'', url),
              (''transaction_reference'', PStr (''tx-'' @ uuid4 env 0))]) 200)"
proof -
  note of_try = initiate_payment_of_try [OF bk unpaid, of env]
  have "initiate_try env s request booking (''tx-'' @ uuid4 env 0) =
      (log_msg (s\<lparr>payments := payments s @
             [\<lparr>payment_pk = next_pk (map payment_pk (payments s)),
               payment_id = uuid4 env 1,
               payment_booking = booking_pk booking,
               transaction_id = Some (''tx-'' @ uuid4 env 0),
               amount = total_price booking,
               currency = ''ETB'',
               payment_status = ''pending'',
               payment_method = PNone,
               chapa_reference = Some (''tx-'' @ uuid4 env 0),
               checkout_url = url,
               created_at = now env,
               updated_at = now env\<rparr>]\<rparr>) INFO ''Payment initiated for booking {}, tx_ref: {}''
           [AStr (booking_id booking), AStr (''tx-'' @ uuid4 env 0)],
       Inr (Response (PDict
             [(''message'', PStr ''Payment initiated successfully''),
              (''payment_id'', PStr (uuid4 env 1)),
              (''checkout_url'', url),
              (''transaction_reference'', PStr (''tx-'' @ uuid4 env 0))]) 200))"
    using gw pw by (simp add: initiate_try_def create_payment_def Let_def)
  then show ?thesis
    by (simp add: of_try)
qed

text \<open>
  The booking of 100.00 of the example.
\<close>

theorem initiate_payment_success_witness:
  "total_price stay = 10000
   \<and> payments (fst (initiate_payment (env_of 10 ''u1'' (HttpResponse 200 init_reply) True True)
        db0 (req_of alice '''') 1)) = [pay1 ''pending'']
   \<and> bookings (fst (initiate_payment (env_of 10 ''u1'' (HttpResponse 200 init_reply) True True)
        db0 (req_of alice '''') 1)) = [stay]
   \<and> snd (initiate_payment (env_of 10 ''u1'' (HttpResponse 200 init_reply) True True)
        db0 (req_of alice '''') 1) =
       Inr (Response (PDict
         [(''message'', PStr ''Payment initiated successfully''),
          (''payment_id'', PStr ''u1-id''),
          (''checkout_url'', PStr ''https://checkout.chapa.co/c1''),
          (''transaction_reference'', PStr ''tx-u1'')]) 200)"
proof -
  have h: "get_object db0 (req_of alice '''') 1 = Inr stay"
    by (simp add: get_object_def get_queryset_def fixture_defs)
  have u: "\<not> has_completed_payment db0 (booking_pk stay)"
    by (simp add: has_completed_payment_def fixture_defs)
  show ?thesis
    using initiate_payment_success [OF h u,
        of "env_of 10 ''u1'' (HttpResponse 200 init_reply) True True"
          "[(''status'', PStr ''success''),
            (''data'', PDict [(''checkout_url'', PStr ''https://checkout.chapa.co/c1'')])]"
          "[(''checkout_url'', PStr ''https://checkout.chapa.co/c1'')]"
          "PStr ''https://checkout.chapa.co/c1''"]
    by (simp add: chapa_initialize_def next_pk_def fixture_defs)
qed

section \<open>C7: a verification that the gateway reports as failed\<close>

text \<open>
  C7: when the gateway reports another transaction status than \<open>success\<close> for an
  existing payment, the bookings, users, listings and the queue are unchanged, and when the
  write succeeds the payment's row differs from before in its status, now \<open>failed\<close>,
  and its \<open>updated_at\<close> only, whatever the status was; the answer is 400.
\<close>

theorem verify_payment_gateway_failure:
  assumes tx: "request_tx_ref request = Some tx" "tx \<noteq> ''''"
    and gw: "chapa_verify env tx = HttpResponse 200 (PDict kvs)"
      "map_of kvs ''status'' = Some (PStr ''success'')"
      "map_of kvs ''data'' = Some (PDict info)"
      "map_of info ''status'' = Some st"
    and failure: "st \<noteq> PStr ''success''"
    and row: "first_index (\<lambda>p. transaction_id p = Some tx) (payments s) = Some i"
  shows "bookings (fst (verify_payment params env s request)) = bookings s
       \<and> users (fst (verify_payment params env s request)) = users s
       \<and> listings (fst (verify_payment params env s request)) = listings s
       \<and> queue (fst (verify_payment params env s request)) = queue s
       \<and> (payment_write_ok env \<longrightarrow>
            payments (fst (verify_payment params env s request)) =
              (payments s)[i := (payments s ! i)\<lparr>payment_status := ''failed'',
                                                  updated_at := now env\<rparr>]
          \<and> snd (verify_payment params env s request) =
              Response (PDict [(''message'', PStr ''Payment failed''),
                               (''payment_status'', PStr ''failed'')]) 400)"
proof -
  have reached: "verify_try params env s tx = verify_failed env s i (payments s ! i)"
    using verify_try_reached [OF gw row] failure by simp
  show ?thesis
    using verify_payment_of_try [OF tx, of params env s]
    by (simp add: reached verify_failed_effect)
qed

text \<open>
  The pending payment of the example.
\<close>

theorem verify_payment_gateway_failure_witness:
  "bookings (fst (verify_payment payment_email_params
       (env_of 20 ''v1'' (HttpResponse 200 (verify_reply ''failed'')) True True)
       (db1 ''pending'') (req_of alice ''tx-u1''))) = [stay]
   \<and> payments (fst (verify_payment payment_email_params
       (env_of 20 ''v1'' (HttpResponse 200 (verify_reply ''failed'')) True True)
       (db1 ''pending'') (req_of alice ''tx-u1''))) =
       [(pay1 ''failed'')\<lparr>updated_at := 20\<rparr>]
   \<and> snd (verify_payment payment_email_params
       (env_of 20 ''v1'' (HttpResponse 200 (verify_reply ''failed'')) True True)
       (db1 ''pending'') (req_of alice ''tx-u1'')) =
       Response (PDict [(''message'', PStr ''Payment failed''),
                        (''payment_status'', PStr ''failed'')]) 400"
  using verify_payment_gateway_failure [of "req_of alice ''tx-u1''" "''tx-u1''"
        "env_of 20 ''v1'' (HttpResponse 200 (verify_reply ''failed'')) True True"
        "[(''status'', PStr ''success''),
          (''data'', PDict [(''status'', PStr ''failed''), (''payment_method'', PStr ''telebirr'')])]"
        "[(''status'', PStr ''failed''), (''payment_method'', PStr ''telebirr'')]"
        "PStr ''failed''" "db1 ''pending''" 0 payment_email_params]
  by (simp add: request_tx_ref_def chapa_verify_def fixture_defs)

section \<open>C8: the confirmation job of a new booking\<close>

text \<open>
  C8 asks for one booking-confirmation job per created booking. The view reads
  \<open>booking.listing.name\<close> while it evaluates the arguments of \<open>delay\<close>, and
  \<open>Listing\<close> has no attribute \<open>name\<close>: the \<open>AttributeError\<close> is caught and logged,
  and no job is ever queued. The call would fail in any case, because the view passes
  \<open>guests\<close>, which the task does not take.
\<close>

lemma create_never_enqueues:
  "queue (fst (create serializer_data env s request validated)) = queue s"
  by (auto simp: create_def perform_create_def queue_booking_email_def listing_has_no_name Let_def
           split: option.splits sum.splits)

lemma guests_not_a_parameter:
  "delay env s name send_booking_confirmation_email_params
     [(''booking_id'', a), (''user_email'', b), (''listing_name'', c),
      (''check_in_date'', d), (''check_out_date'', e), (''guests'', g)] = Inl TypeError"
  by (simp add: delay_def send_booking_confirmation_email_params_def)

text \<open>
  C8 on the example, with the broker reachable: the booking is stored as pending and the
  answer is 201, but the queue is empty and the log holds the error.
\<close>

theorem create_enqueues_no_job:
  "broker_ok (env_of 10 ''b-2'' RequestFailed True True)
   \<and> queue (fst (create (\<lambda>b. PStr (booking_id b)) (env_of 10 ''b-2'' RequestFailed True True)
        db0 (req_of alice '''') (Some form1))) = []
   \<and> logged (fst (create (\<lambda>b. PStr (booking_id b)) (env_of 10 ''b-2'' RequestFailed True True)
        db0 (req_of alice '''') (Some form1))) =
       [(INFO, ''Booking {} created by user {}'', [AStr ''b-2'', ANat 1]),
        (ERROR, ''Failed to queue booking email for {}: {}'', [ANat 2, AExn AttributeError])]
   \<and> map status (bookings (fst (create (\<lambda>b. PStr (booking_id b))
        (env_of 10 ''b-2'' RequestFailed True True) db0 (req_of alice '''') (Some form1)))) =
       [''pending'', ''pending'']
   \<and> snd (create (\<lambda>b. PStr (booking_id b)) (env_of 10 ''b-2'' RequestFailed True True)
        db0 (req_of alice '''') (Some form1)) =
       Inr (Response (PDict
         [(''message'', PStr
             ''Booking created successfully. Confirmation email will be sent shortly.''),
          (''booking'', PStr ''b-2'')]) 201)"
  by (simp add: create_defs fixture_defs)

section \<open>C9: the answers of \<open>payment_status\<close>\<close>

text \<open>
  C9 asks for 404 on an unknown id and 200 with the payment for its owner. The \<open>Http404\<close>
  of \<open>get_object_or_404\<close> is raised inside the \<open>try\<close> and caught by its handler, which
  answers 400; for the owner the view reads \<open>payment.verified_at\<close>, which \<open>Payment\<close>
  does not have, and the same handler answers 400. So the view answers 400 or 403 only.
\<close>

lemma payment_status_view_codes:
  "snd (payment_status_view s request pid) = Response d c \<Longrightarrow> c = 400 \<or> c = 403"
  by (auto simp: payment_status_view_def payment_status_try_def payment_has_no_verified_at
           split: option.splits sum.splits if_splits)

text \<open>
  C9 on the example: an unknown id and the owner get 400, another user gets 403.
\<close>

theorem payment_status_never_ok:
  "snd (payment_status_view (db1 ''pending'') (req_of alice '''') ''no-such-id'') =
     Response (PDict [(''error'', PStr ''Failed to retrieve payment status'')]) 400
   \<and> snd (payment_status_view (db1 ''pending'') (req_of alice '''') ''u1-id'') =
     Response (PDict [(''error'', PStr ''Failed to retrieve payment status'')]) 400
   \<and> snd (payment_status_view (db1 ''pending'') (req_of bob '''') ''u1-id'') =
     Response (PDict [(''error'', PStr ''Unauthorized'')]) 403"
  by (simp add: status_defs fixture_defs)

end
